theory Spec2Isabelle
  imports Complex_Main
begin

section \<open>Python values and exceptions\<close>

text \<open>
  The metadata checkpoint read at line 26 of \<^verbatim>\<open>generate.py\<close> is a dynamically typed
  Python object. The fragment of Python values it is built from: integers, strings,
  lists and dictionaries (a dictionary as an association list, looked up with
  \<open>map_of\<close>).
\<close>

datatype pyval =
    PInt int
  | PStr string
  | PList "pyval list"
  | PDict "(pyval \<times> pyval) list"

datatype exn =
    KeyError pyval
  | IndexError
  | TypeError
  | ValueError
  | OSError string
  | RuntimeError string

fun hashable :: "pyval \<Rightarrow> bool" where
  "hashable (PInt _) = True"
| "hashable (PStr _) = True"
| "hashable (PList _) = False"
| "hashable (PDict _) = False"

text \<open>Indexing a sequence: a negative index counts from the end, out of range raises.\<close>

definition seq_index :: "'a list \<Rightarrow> int \<Rightarrow> exn + 'a" where
  "seq_index xs i =
     (if 0 \<le> i \<and> i < int (length xs) then Inr (xs ! nat i)
      else if i < 0 \<and> - int (length xs) \<le> i then Inr (xs ! nat (int (length xs) + i))
      else Inl IndexError)"

text \<open>The subscription \<^verbatim>\<open>obj[key]\<close>.\<close>

fun getitem :: "pyval \<Rightarrow> pyval \<Rightarrow> exn + pyval" where
  "getitem (PDict kvs) k =
     (if hashable k
      then (case map_of kvs k of Some v \<Rightarrow> Inr v | None \<Rightarrow> Inl (KeyError k))
      else Inl TypeError)"
| "getitem (PList xs) (PInt i) = seq_index xs i"
| "getitem (PStr s) (PInt i) = map_sum id (\<lambda>c. PStr [c]) (seq_index s i)"
| "getitem _ _ = Inl TypeError"

text \<open>\<^verbatim>\<open>len(obj)\<close>.\<close>

fun py_len :: "pyval \<Rightarrow> exn + int" where
  "py_len (PInt _) = Inl TypeError"
| "py_len (PStr s) = Inr (int (length s))"
| "py_len (PList xs) = Inr (int (length xs))"
| "py_len (PDict kvs) = Inr (int (length (remdups (map fst kvs))))"

text \<open>\<^verbatim>\<open>obj - k\<close> for an integer literal \<open>k\<close>: only an integer supports it in this fragment.\<close>

fun py_sub :: "pyval \<Rightarrow> int \<Rightarrow> exn + int" where
  "py_sub (PInt n) k = Inr (n - k)"
| "py_sub _ k = Inl TypeError"

text \<open>\<^verbatim>\<open>os.path.join(a, b)\<close> on a POSIX system.\<close>

definition path_join :: "string \<Rightarrow> string \<Rightarrow> string" where
  "path_join a b =
     (if b \<noteq> [] \<and> hd b = CHR ''/'' then b
      else if a = [] \<or> last a = CHR ''/'' then a @ b
      else a @ ''/'' @ b)"

section \<open>The world the routine runs in\<close>

text \<open>
  Everything mutable that the torch collaborators own (the random number generator, the
  storage of tensors, the parameters of the network) is the opaque heap \<open>'h\<close>; the
  routine holds references into it (\<open>'m\<close> for the network, \<open>'z\<close> for a latent
  tensor). The files written as delimited tables and the console are concrete. The log is
  the sequence of collaborator calls made so far: \<open>EvDecode z v\<close> records a decode call
  on the tensor \<open>z\<close> whose content was \<open>v\<close> when the call was made, \<open>EvOptimized z v\<close>
  that the optimizer returned \<open>z\<close> with content \<open>v\<close>, \<open>EvRaised e\<close> that a step raised
  \<open>e\<close>.
\<close>

datatype ('z, 'v) event =
    EvConfig
  | EvTorchLoad string
  | EvVAE int int int int pyval
  | EvModuleTo string
  | EvLoadStateDict
  | EvRandn int int
  | EvTensorTo string
  | EvOptimize 'z int rat
  | EvOptimized 'z 'v
  | EvDecode 'z 'v
  | EvRaised exn

record ('h, 'z, 'v) world =
  heap :: 'h
  files :: "string \<Rightarrow> string list list option"
  stdout :: "string list"
  log :: "('z, 'v) event list"

type_synonym ('a, 'h, 'z, 'v) prog = "('h, 'z, 'v) world \<Rightarrow> (exn + 'a) \<times> ('h, 'z, 'v) world"

definition returnE :: "'a \<Rightarrow> ('a, 'h, 'z, 'v) prog" where
  "returnE a w = (Inr a, w)"

definition raiseE :: "exn \<Rightarrow> ('a, 'h, 'z, 'v) prog" where
  "raiseE e w = (Inl e, w\<lparr>log := log w @ [EvRaised e]\<rparr>)"

text \<open>Sequencing: an exception of the first step ends the run, there is no handler.\<close>

definition bindE :: "('a, 'h, 'z, 'v) prog \<Rightarrow> ('a \<Rightarrow> ('b, 'h, 'z, 'v) prog) \<Rightarrow> ('b, 'h, 'z, 'v) prog" where
  "bindE m f w = (case m w of (Inl e, w') \<Rightarrow> (Inl e, w') | (Inr a, w') \<Rightarrow> f a w')"

definition liftE :: "exn + 'a \<Rightarrow> ('a, 'h, 'z, 'v) prog" where
  "liftE r = (case r of Inl e \<Rightarrow> raiseE e | Inr a \<Rightarrow> returnE a)"

text \<open>A call of a collaborator that works on the heap.\<close>

definition call :: "('z, 'v) event \<Rightarrow> ('h \<Rightarrow> (exn + 'a) \<times> 'h) \<Rightarrow> ('a, 'h, 'z, 'v) prog" where
  "call ev f w =
     (case f (heap w) of
        (r, h') \<Rightarrow> liftE r (w\<lparr>heap := h', log := log w @ [ev]\<rparr>))"

section \<open>Collaborators\<close>

text \<open>
  \<^verbatim>\<open>Config()\<close> of \<^verbatim>\<open>utils/config.py\<close>: the three attributes the routine reads.
\<close>

record config =
  embed_size :: int
  latent_dim :: int
  device :: string

text \<open>
  The functions the routine calls and does not define: torch, rdkit, pandas' formatting
  of a property value, the file system and the console, and the modules \<^verbatim>\<open>models/vae.py\<close>, \<^verbatim>\<open>utils/optimization.py\<close>, \<^verbatim>\<open>utils/compute_properties.py\<close>.
  Each is a parameter. \<^verbatim>\<open>torch.load\<close> appears twice, once per type of what it returns
  (the metadata as a Python value, the weights as an opaque state dictionary).
  \<^verbatim>\<open>Chem.MolFromSmiles\<close> returns a molecule or \<^verbatim>\<open>None\<close> and does not raise on a string; a
  molecule object is truthy. \<open>tensor_val\<close> reads the content of a tensor in a heap.
  \<open>open_for_write\<close> is the answer of the file system to opening a path for writing
  (\<open>None\<close>: it opens); \<open>write_fault\<close> its answer to writing records to the opened path
  (\<open>None\<close>: all are written; \<open>Some (e, k)\<close>: \<open>e\<close> is raised once \<open>k\<close> records are
  written); \<open>stdout_write\<close> the answer of the console to a line (\<open>None\<close>: it is
  written).
\<close>

record ('h, 'm, 'z, 'sd, 'q, 'mol, 'v) env =
  Config :: "'h \<Rightarrow> (exn + config) \<times> 'h"
  torch_load_info :: "string \<Rightarrow> 'h \<Rightarrow> (exn + pyval) \<times> 'h"
  torch_load_weights :: "string \<Rightarrow> 'h \<Rightarrow> (exn + 'sd) \<times> 'h"
  VAE :: "int \<Rightarrow> int \<Rightarrow> int \<Rightarrow> int \<Rightarrow> pyval \<Rightarrow> 'h \<Rightarrow> (exn + 'm) \<times> 'h"
  module_to :: "'m \<Rightarrow> string \<Rightarrow> 'h \<Rightarrow> (exn + 'm) \<times> 'h"
  load_state_dict :: "'m \<Rightarrow> 'sd \<Rightarrow> 'h \<Rightarrow> (exn + unit) \<times> 'h"
  torch_randn :: "int \<Rightarrow> int \<Rightarrow> 'h \<Rightarrow> (exn + 'z) \<times> 'h"
  tensor_to :: "'z \<Rightarrow> string \<Rightarrow> 'h \<Rightarrow> (exn + 'z) \<times> 'h"
  optimize_latent_vector :: "'m \<Rightarrow> 'z \<Rightarrow> int \<Rightarrow> rat \<Rightarrow> 'h \<Rightarrow> (exn + 'z) \<times> 'h"
  decode_latent_vector_sample ::
    "'m \<Rightarrow> 'z \<Rightarrow> pyval \<Rightarrow> pyval \<Rightarrow> pyval \<Rightarrow> pyval \<Rightarrow> string \<Rightarrow> 'h \<Rightarrow> (exn + string) \<times> 'h"
  MolFromSmiles :: "string \<Rightarrow> 'mol option"
  compute_property :: "string \<Rightarrow> exn + 'q"
  tensor_val :: "'h \<Rightarrow> 'z \<Rightarrow> 'v"
  str_of_property :: "'q \<Rightarrow> string"
  open_for_write :: "string \<Rightarrow> exn option"
  write_fault :: "string \<Rightarrow> string list list \<Rightarrow> (exn \<times> nat) option"
  stdout_write :: "string \<Rightarrow> exn option"

section \<open>The result table\<close>

datatype 'q cell = CStr string | CNum 'q

text \<open>
  The dictionary \<^verbatim>\<open>data\<close> of line 41, in insertion order: column name, column.
\<close>

type_synonym 'q table = "(string \<times> 'q cell list) list"

definition empty_data :: "'q table" where
  "empty_data = [(''Generated_SMILES'', []), (''Validity'', []), (''QED'', [])]"

text \<open>\<^verbatim>\<open>data[k].append(x)\<close>.\<close>

fun dict_append :: "string \<Rightarrow> 'a \<Rightarrow> (string \<times> 'a list) list \<Rightarrow> exn + (string \<times> 'a list) list" where
  "dict_append k x [] = Inl (KeyError (PStr k))"
| "dict_append k x ((k', xs) # kvs) =
     (if k = k' then Inr ((k', xs @ [x]) # kvs)
      else map_sum id ((#) (k', xs)) (dict_append k x kvs))"

record 'q frame =
  columns :: "string list"
  rows :: "'q cell list list"

text \<open>
  \<^verbatim>\<open>pd.DataFrame(data)\<close> on a dictionary of lists: the columns in insertion order, one row
  per index; lists of different lengths are refused.
\<close>

definition DataFrame :: "'q table \<Rightarrow> exn + 'q frame" where
  "DataFrame data =
     (case data of
        [] \<Rightarrow> Inr \<lparr>columns = [], rows = []\<rparr>
      | (k, c) # rest \<Rightarrow>
          if list_all (\<lambda>kc. length (snd kc) = length c) rest
          then Inr \<lparr>columns = map fst data,
                    rows = map (\<lambda>i. map (\<lambda>kc. snd kc ! i) data) [0..<length c]\<rparr>
          else Inl ValueError)"

fun csv_field :: "('q \<Rightarrow> string) \<Rightarrow> 'q cell \<Rightarrow> string" where
  "csv_field fmt (CStr s) = s"
| "csv_field fmt (CNum q) = fmt q"

text \<open>
  \<^verbatim>\<open>df.to_csv(path, index=False)\<close>: the file is the list of its records, the header
  first, each record the list of its fields. Opening the path for writing may fail, and
  then nothing is written; once it is open the file is created anew, and a failure
  while writing leaves the records written until then.
\<close>

definition to_csv ::
  "('h, 'm, 'z, 'sd, 'q, 'mol, 'v) env \<Rightarrow> 'q frame \<Rightarrow> string \<Rightarrow> (unit, 'h, 'z, 'v) prog" where
  "to_csv env df path w =
     (case open_for_write env path of
        Some e \<Rightarrow> raiseE e w
      | None \<Rightarrow>
          (let recs = columns df # map (map (csv_field (str_of_property env))) (rows df) in
           case write_fault env path recs of
             None \<Rightarrow> (Inr (), w\<lparr>files := (files w)(path \<mapsto> recs)\<rparr>)
           | Some (e, k) \<Rightarrow> raiseE e (w\<lparr>files := (files w)(path \<mapsto> take k recs)\<rparr>)))"

text \<open>\<^verbatim>\<open>print(s)\<close>: the line goes to the console, or the console raises.\<close>

definition print ::
  "('h, 'm, 'z, 'sd, 'q, 'mol, 'v) env \<Rightarrow> string \<Rightarrow> (unit, 'h, 'z, 'v) prog" where
  "print env s w =
     (case stdout_write env s of
        Some e \<Rightarrow> raiseE e w
      | None \<Rightarrow> (Inr (), w\<lparr>stdout := stdout w @ [s]\<rparr>))"

text \<open>How a record of a delimited file reads as a line: the fields, comma separated.\<close>

fun csv_line :: "string list \<Rightarrow> string" where
  "csv_line [] = []"
| "csv_line [f] = f"
| "csv_line (f # g # fs) = f @ '','' @ csv_line (g # fs)"

section \<open>The generation routine\<close>

text \<open>Lines 43 to 45: one decode call on the latent tensor.\<close>

definition decode_call ::
  "('h, 'm, 'z, 'sd, 'q, 'mol, 'v) env \<Rightarrow> 'm \<Rightarrow> 'z \<Rightarrow> pyval \<Rightarrow> pyval \<Rightarrow> pyval \<Rightarrow> pyval \<Rightarrow> string
     \<Rightarrow> (string, 'h, 'z, 'v) prog" where
  "decode_call env model z char_to_idx idx_to_char start_token end_token dev w =
     call (EvDecode z (tensor_val env (heap w) z))
          (decode_latent_vector_sample env model z char_to_idx idx_to_char start_token end_token dev) w"

text \<open>Lines 43 to 51: the body of the loop.\<close>

definition iteration ::
  "('h, 'm, 'z, 'sd, 'q, 'mol, 'v) env \<Rightarrow> 'm \<Rightarrow> 'z \<Rightarrow> pyval \<Rightarrow> pyval \<Rightarrow> pyval \<Rightarrow> pyval \<Rightarrow> string
     \<Rightarrow> 'q table \<Rightarrow> ('q table, 'h, 'z, 'v) prog" where
  "iteration env model z char_to_idx idx_to_char start_token end_token dev data =
     bindE (decode_call env model z char_to_idx idx_to_char start_token end_token dev) (\<lambda>smiles.
     let mol = MolFromSmiles env smiles;
         valid = (if mol \<noteq> None then ''Valid'' else ''Invalid'') in
     bindE (liftE (compute_property env smiles)) (\<lambda>properties.
     bindE (liftE (dict_append ''Generated_SMILES'' (CStr smiles) data)) (\<lambda>data.
     bindE (liftE (dict_append ''Validity'' (CStr valid) data)) (\<lambda>data.
     bindE (liftE (dict_append ''QED'' (CNum properties) data)) (\<lambda>data.
     returnE data)))))"

text \<open>Line 42: \<^verbatim>\<open>for _ in range(num_molecules)\<close>, as many rounds as the range has elements.\<close>

primrec decode_loop ::
  "('h, 'm, 'z, 'sd, 'q, 'mol, 'v) env \<Rightarrow> 'm \<Rightarrow> 'z \<Rightarrow> pyval \<Rightarrow> pyval \<Rightarrow> pyval \<Rightarrow> pyval \<Rightarrow> string
     \<Rightarrow> nat \<Rightarrow> 'q table \<Rightarrow> ('q table, 'h, 'z, 'v) prog" where
  "decode_loop env model z char_to_idx idx_to_char start_token end_token dev 0 data = returnE data"
| "decode_loop env model z char_to_idx idx_to_char start_token end_token dev (Suc k) data =
     bindE (iteration env model z char_to_idx idx_to_char start_token end_token dev data)
           (decode_loop env model z char_to_idx idx_to_char start_token end_token dev k)"

text \<open>Line 40: the call of the optimizer, with what it returned noted in the log.\<close>

definition optimize_call ::
  "('h, 'm, 'z, 'sd, 'q, 'mol, 'v) env \<Rightarrow> 'm \<Rightarrow> 'z \<Rightarrow> int \<Rightarrow> rat \<Rightarrow> ('z, 'h, 'z, 'v) prog" where
  "optimize_call env model z num_steps lr =
     bindE (call (EvOptimize z num_steps lr) (optimize_latent_vector env model z num_steps lr))
       (\<lambda>z' w. (Inr z', w\<lparr>log := log w @ [EvOptimized z' (tensor_val env (heap w) z')]\<rparr>))"

definition generate ::
  "('h, 'm, 'z, 'sd, 'q, 'mol, 'v) env \<Rightarrow> int \<Rightarrow> string \<Rightarrow> string \<Rightarrow> ('q table, 'h, 'z, 'v) prog" where
  "generate env num_molecules model_dir output_path =
     bindE (call EvConfig (Config env)) (\<lambda>config.
     bindE (call (EvTorchLoad (path_join model_dir ''model_info.pth''))
                 (torch_load_info env (path_join model_dir ''model_info.pth''))) (\<lambda>model_info.
     bindE (liftE (getitem model_info (PStr ''vocab''))) (\<lambda>vocab.
     bindE (liftE (getitem model_info (PStr ''char_to_idx''))) (\<lambda>char_to_idx.
     bindE (liftE (getitem model_info (PStr ''idx_to_char''))) (\<lambda>idx_to_char.
     bindE (liftE (getitem model_info (PStr ''start_token''))) (\<lambda>start_token.
     bindE (liftE (getitem model_info (PStr ''end_token''))) (\<lambda>end_token.
     bindE (liftE (getitem model_info (PStr ''pad_token''))) (\<lambda>pad_token.
     bindE (liftE (getitem model_info (PStr ''max_length''))) (\<lambda>max_length.
     bindE (liftE (py_len vocab)) (\<lambda>vocab_size.
     bindE (liftE (py_sub max_length 1)) (\<lambda>horizon.
     bindE (liftE (getitem char_to_idx pad_token)) (\<lambda>pad_idx.
     bindE (call (EvVAE vocab_size (embed_size config) (latent_dim config) horizon pad_idx)
                 (VAE env vocab_size (embed_size config) (latent_dim config) horizon pad_idx)) (\<lambda>vae.
     bindE (call (EvModuleTo (device config)) (module_to env vae (device config))) (\<lambda>model.
     bindE (call (EvTorchLoad (path_join model_dir ''vae_model.pth''))
                 (torch_load_weights env (path_join model_dir ''vae_model.pth''))) (\<lambda>state_dict.
     bindE (call EvLoadStateDict (load_state_dict env model state_dict)) (\<lambda>_.
     bindE (call (EvRandn 1 (latent_dim config)) (torch_randn env 1 (latent_dim config))) (\<lambda>z0.
     bindE (call (EvTensorTo (device config)) (tensor_to env z0 (device config))) (\<lambda>initial_z.
     bindE (optimize_call env model initial_z 100 (1 / 100)) (\<lambda>optimized_z.
     bindE (decode_loop env model optimized_z char_to_idx idx_to_char start_token end_token
              (device config) (nat num_molecules) empty_data) (\<lambda>data.
     bindE (liftE (DataFrame data)) (\<lambda>df.
     bindE (to_csv env df output_path) (\<lambda>_.
     bindE (print env (''Generated molecules saved to '' @ output_path)) (\<lambda>_.
     returnE data)))))))))))))))))))))))"


section \<open>Notions used to state the properties\<close>

text \<open>The table with the given rows: decoded string, validity label, property value.\<close>

definition table_of :: "(string \<times> string \<times> 'q) list \<Rightarrow> 'q table" where
  "table_of recs =
     [(''Generated_SMILES'', map (\<lambda>r. CStr (fst r)) recs),
      (''Validity'', map (\<lambda>r. CStr (fst (snd r))) recs),
      (''QED'', map (\<lambda>r. CNum (snd (snd r))) recs)]"

definition header :: "string list" where
  "header = [''Generated_SMILES'', ''Validity'', ''QED'']"

text \<open>The record of the file for one row.\<close>

definition render :: "('h, 'm, 'z, 'sd, 'q, 'mol, 'v) env \<Rightarrow> string \<times> string \<times> 'q \<Rightarrow> string list" where
  "render env r = [fst r, fst (snd r), str_of_property env (snd (snd r))]"

text \<open>The label of line 47 for a string.\<close>

definition validity :: "('h, 'm, 'z, 'sd, 'q, 'mol, 'v) env \<Rightarrow> string \<Rightarrow> string" where
  "validity env s = (if MolFromSmiles env s \<noteq> None then ''Valid'' else ''Invalid'')"

fun is_decode :: "('z, 'v) event \<Rightarrow> bool" where
  "is_decode (EvDecode _ _) = True"
| "is_decode _ = False"

fun is_optimize :: "('z, 'v) event \<Rightarrow> bool" where
  "is_optimize (EvOptimize _ _ _) = True"
| "is_optimize _ = False"

fun is_randn :: "('z, 'v) event \<Rightarrow> bool" where
  "is_randn (EvRandn _ _) = True"
| "is_randn _ = False"


text \<open>The number of decode calls in a log.\<close>

definition decodes :: "('z, 'v) event list \<Rightarrow> nat" where
  "decodes l = length (filter is_decode l)"

text \<open>
  Modelled from the spec: \<^verbatim>\<open>decode_latent_vector_sample\<close> of \<^verbatim>\<open>utils/optimization.py\<close>
  is not part of the sources at hand. The specification has the latent vector treated as
  read-only once it is optimized, the decoder reading it as its seed: a decode call that
  returns leaves the content of the tensor it was given as it found it.
\<close>

definition decoder_read_only :: "('h, 'm, 'z, 'sd, 'q, 'mol, 'v) env \<Rightarrow> bool" where
  "decoder_read_only env =
     (\<forall>model z c2i i2c st en dev h s h'.
        decode_latent_vector_sample env model z c2i i2c st en dev h = (Inr s, h')
          \<longrightarrow> tensor_val env h' z = tensor_val env h z)"








section \<open>A small concrete environment\<close>

text \<open>
  A checkpoint over the vocabulary \<open>C O ( < > _\<close> and collaborators simple enough to run
  by hand. The heap is a pair: the number of random draws made so far and the content of
  the one latent tensor. The decoder draws once per call and alternates between a string
  that parses and one that does not; it raises when the draw count is \<open>bad\<close>. The pad
  symbol of the checkpoint is a parameter.
\<close>

definition toy_kvs :: "(pyval \<times> pyval) list" where
  "toy_kvs = [(PStr ''C'', PInt 0), (PStr ''O'', PInt 1), (PStr ''('', PInt 2),
              (PStr ''<'', PInt 3), (PStr ''>'', PInt 4), (PStr ''_'', PInt 5)]"

definition toy_c2i :: pyval where
  "toy_c2i = PDict toy_kvs"

definition toy_i2c :: pyval where
  "toy_i2c = PDict [(PInt 0, PStr ''C''), (PInt 1, PStr ''O''), (PInt 2, PStr ''(''),
                    (PInt 3, PStr ''<''), (PInt 4, PStr ''>''), (PInt 5, PStr ''_'')]"

definition toy_vocab :: pyval where
  "toy_vocab = PList [PStr ''C'', PStr ''O'', PStr ''('', PStr ''<'', PStr ''>'', PStr ''_'']"

definition toy_info :: "pyval \<Rightarrow> pyval" where
  "toy_info pad =
     PDict [(PStr ''vocab'', toy_vocab),
            (PStr ''char_to_idx'', toy_c2i),
            (PStr ''idx_to_char'', toy_i2c),
            (PStr ''start_token'', PStr ''<''),
            (PStr ''end_token'', PStr ''>''),
            (PStr ''pad_token'', pad),
            (PStr ''max_length'', PInt 10)]"

definition toy_config :: config where
  "toy_config = \<lparr>embed_size = 8, latent_dim = 4, device = ''cpu''\<rparr>"

definition toy_env :: "pyval \<Rightarrow> nat \<Rightarrow> (nat \<times> int, nat, nat, unit, int, unit, int) env" where
  "toy_env pad bad =
     \<lparr>Config = (\<lambda>h. (Inr toy_config, h)),
      torch_load_info = (\<lambda>p h. (if p = ''ckpt/model_info.pth'' then Inr (toy_info pad)
                                 else Inl (OSError p), h)),
      torch_load_weights = (\<lambda>p h. (if p = ''ckpt/vae_model.pth'' then Inr ()
                                    else Inl (OSError p), h)),
      VAE = (\<lambda>vocab_size es ld horizon pad_idx h.
               (if 0 < vocab_size \<and> 0 < horizon then Inr 0 else Inl (RuntimeError ''shape''), h)),
      module_to = (\<lambda>m d h. (Inr m, h)),
      load_state_dict = (\<lambda>m sd h. (Inr (), h)),
      torch_randn = (\<lambda>a b h. (Inr 1, (Suc (fst h), 3))),
      tensor_to = (\<lambda>z d h. (Inr z, h)),
      optimize_latent_vector = (\<lambda>m z steps lr h. (Inr z, (fst h, snd h + steps))),
      decode_latent_vector_sample = (\<lambda>m z c2i i2c st en d h.
               (if fst h = bad then Inl (RuntimeError ''decode'')
                else Inr (if even (fst h) then ''C('' else ''CCO''), (Suc (fst h), snd h))),
      MolFromSmiles = (\<lambda>s. if s = ''CCO'' then Some () else None),
      compute_property = (\<lambda>s. Inr (if s = ''CCO'' then 41 else 0)),
      tensor_val = (\<lambda>h z. if z = 1 then snd h else 0),
      str_of_property = (\<lambda>q. if q = 41 then ''0.41'' else ''0.0''),
      open_for_write = (\<lambda>p. if p = [] then Some (OSError p) else None),
      write_fault = (\<lambda>p recs. None),
      stdout_write = (\<lambda>s. None)\<rparr>"


text \<open>The same with a weights file that cannot be read.\<close>

definition toy_no_weights :: "(nat \<times> int, nat, nat, unit, int, unit, int) env" where
  "toy_no_weights =
     (toy_env (PStr ''_'') 99)\<lparr>torch_load_weights := (\<lambda>p h. (Inl (OSError p), h))\<rparr>"

definition toy_world :: "(nat \<times> int, nat, int) world" where
  "toy_world = \<lparr>heap = (0, 0), files = (\<lambda>_. None), stdout = [], log = []\<rparr>"

definition toy_data :: "int table" where
  "toy_data = [(''Generated_SMILES'', [CStr ''CCO'', CStr ''C('']),
               (''Validity'', [CStr ''Valid'', CStr ''Invalid'']),
               (''QED'', [CNum 41, CNum 0])]"

definition toy_log :: "(nat, int) event list" where
  "toy_log = [EvConfig, EvTorchLoad ''ckpt/model_info.pth'', EvVAE 6 8 4 9 (PInt 5),
      EvModuleTo ''cpu'', EvTorchLoad ''ckpt/vae_model.pth'', EvLoadStateDict, EvRandn 1 4,
      EvTensorTo ''cpu'', EvOptimize 1 100 (1 / 100), EvOptimized 1 103]"

definition toy_final :: "(nat \<times> int, nat, int) world" where
  "toy_final =
     \<lparr>heap = (3, 103),
      files = (\<lambda>_. None)(''out.csv'' \<mapsto>
          [[''Generated_SMILES'', ''Validity'', ''QED''],
           [''CCO'', ''Valid'', ''0.41''], [''C('', ''Invalid'', ''0.0'']]),
      stdout = [''Generated molecules saved to out.csv''],
      log = toy_log @ [EvDecode 1 103, EvDecode 1 103]\<rparr>"

definition toy_final0 :: "(nat \<times> int, nat, int) world" where
  "toy_final0 =
     \<lparr>heap = (1, 103),
      files = (\<lambda>_. None)(''out.csv'' \<mapsto> [[''Generated_SMILES'', ''Validity'', ''QED'']]),
      stdout = [''Generated molecules saved to out.csv''],
      log = toy_log\<rparr>"



section \<open>Runs of the steps\<close>

lemma bindE_Inr:
  "bindE m f w = (Inr b, w') \<longleftrightarrow> (\<exists>a w1. m w = (Inr a, w1) \<and> f a w1 = (Inr b, w'))"
  by (auto simp: bindE_def split: prod.splits sum.splits)


lemma liftE_Inr: "liftE r w = (Inr a, w') \<longleftrightarrow> r = Inr a \<and> w' = w"
  by (auto simp: liftE_def returnE_def raiseE_def split: sum.splits)

lemma call_Inr:
  "call ev f w = (Inr a, w') \<longleftrightarrow>
     (\<exists>h'. f (heap w) = (Inr a, h') \<and> w' = w\<lparr>heap := h', log := log w @ [ev]\<rparr>)"
  by (auto simp: call_def liftE_Inr split: prod.splits)

lemma returnE_Inr: "returnE a w = (Inr b, w') \<longleftrightarrow> b = a \<and> w' = w"
  by (auto simp: returnE_def)

lemma table_of_Nil: "table_of [] = empty_data"
  by (simp add: table_of_def empty_data_def)

lemma table_of_inject: "table_of xs = table_of ys \<Longrightarrow> xs = ys"
proof (induction xs arbitrary: ys)
  case Nil
  then show ?case by (simp add: table_of_def)
next
  case (Cons x xs)
  then obtain y ys' where ys: "ys = y # ys'"
    by (cases ys) (simp_all add: table_of_def)
  with Cons.prems have "x = y" and "table_of xs = table_of ys'"
    by (simp_all add: table_of_def prod_eq_iff)
  with Cons.IH ys show ?case by simp
qed

lemma table_of_append:
  "dict_append ''Generated_SMILES'' (CStr s) (table_of recs) = Inr d1 \<Longrightarrow>
   dict_append ''Validity'' (CStr v) d1 = Inr d2 \<Longrightarrow>
   dict_append ''QED'' (CNum q) d2 = Inr d3 \<Longrightarrow> d3 = table_of (recs @ [(s, v, q)])"
  by (auto simp: table_of_def)

lemma decodes_append: "decodes (xs @ ys) = decodes xs + decodes ys"
  by (simp add: decodes_def)

lemma decodes_map_EvDecode: "decodes (map (EvDecode z) vs) = length vs"
  by (induction vs) (simp_all add: decodes_def)

subsection \<open>The loop\<close>

lemma iteration_Inr:
  assumes "iteration env model z c2i i2c st en dev (table_of recs) w = (Inr d, w')"
  shows "\<exists>s q h'. decode_latent_vector_sample env model z c2i i2c st en dev (heap w) = (Inr s, h')
           \<and> compute_property env s = Inr q
           \<and> d = table_of (recs @ [(s, validity env s, q)])
           \<and> w' = w\<lparr>heap := h', log := log w @ [EvDecode z (tensor_val env (heap w) z)]\<rparr>"
proof -
  from assms obtain s h' q d1 d2 where
    dec: "decode_latent_vector_sample env model z c2i i2c st en dev (heap w) = (Inr s, h')"
    and w': "w' = w\<lparr>heap := h', log := log w @ [EvDecode z (tensor_val env (heap w) z)]\<rparr>"
    and q: "compute_property env s = Inr q"
    and d1: "dict_append ''Generated_SMILES'' (CStr s) (table_of recs) = Inr d1"
    and d2: "dict_append ''Validity'' (CStr (validity env s)) d1 = Inr d2"
    and d3: "dict_append ''QED'' (CNum q) d2 = Inr d"
    unfolding iteration_def decode_call_def validity_def Let_def
    by (auto simp: bindE_Inr liftE_Inr call_Inr returnE_Inr)
  from table_of_append [OF d1 d2 d3] dec w' q show ?thesis by blast
qed

lemma decode_loop_Inr:
  assumes "decode_loop env model z c2i i2c st en dev k (table_of recs) w = (Inr d, w')"
  shows "\<exists>new vs. d = table_of (recs @ new) \<and> length new = k \<and> length vs = k
           \<and> (\<forall>r \<in> set new. fst (snd r) = validity env (fst r)
                  \<and> compute_property env (fst r) = Inr (snd (snd r)))
           \<and> files w' = files w \<and> stdout w' = stdout w
           \<and> log w' = log w @ map (EvDecode z) vs
           \<and> (decoder_read_only env \<longrightarrow>
                 vs = replicate k (tensor_val env (heap w) z)
                 \<and> tensor_val env (heap w') z = tensor_val env (heap w) z)"
  using assms
proof (induction k arbitrary: recs w)
  case 0
  then show ?case by (simp add: returnE_Inr)
next
  case (Suc k)
  from Suc.prems obtain d1 w1 where
    it: "iteration env model z c2i i2c st en dev (table_of recs) w = (Inr d1, w1)"
    and rest: "decode_loop env model z c2i i2c st en dev k d1 w1 = (Inr d, w')"
    by (auto simp: bindE_Inr)
  from iteration_Inr [OF it] obtain s q h' where
    dec: "decode_latent_vector_sample env model z c2i i2c st en dev (heap w) = (Inr s, h')"
    and q: "compute_property env s = Inr q"
    and d1: "d1 = table_of (recs @ [(s, validity env s, q)])"
    and w1: "w1 = w\<lparr>heap := h', log := log w @ [EvDecode z (tensor_val env (heap w) z)]\<rparr>"
    by blast
  from Suc.IH [OF rest [unfolded d1]] obtain new vs where
    d: "d = table_of ((recs @ [(s, validity env s, q)]) @ new)"
    and len: "length new = k" "length vs = k"
    and ok: "\<forall>r \<in> set new. fst (snd r) = validity env (fst r)
                  \<and> compute_property env (fst r) = Inr (snd (snd r))"
    and fs: "files w' = files w1" "stdout w' = stdout w1"
    and lg: "log w' = log w1 @ map (EvDecode z) vs"
    and ro: "decoder_read_only env \<longrightarrow>
                 vs = replicate k (tensor_val env (heap w1) z)
                 \<and> tensor_val env (heap w') z = tensor_val env (heap w1) z"
    by blast
  have keep: "decoder_read_only env \<Longrightarrow> tensor_val env (heap w1) z = tensor_val env (heap w) z"
    using dec w1 unfolding decoder_read_only_def by auto
  let ?new = "(s, validity env s, q) # new"
  let ?vs = "tensor_val env (heap w) z # vs"
  have "d = table_of (recs @ ?new)" using d by simp
  moreover have "length ?new = Suc k" "length ?vs = Suc k" using len by simp_all
  moreover have "\<forall>r \<in> set ?new. fst (snd r) = validity env (fst r)
                  \<and> compute_property env (fst r) = Inr (snd (snd r))"
    using ok q by simp
  moreover have "files w' = files w" "stdout w' = stdout w" using fs w1 by simp_all
  moreover have "log w' = log w @ map (EvDecode z) ?vs" using lg w1 by simp
  moreover have "decoder_read_only env \<longrightarrow>
                 ?vs = replicate (Suc k) (tensor_val env (heap w) z)
                 \<and> tensor_val env (heap w') z = tensor_val env (heap w) z"
    using ro keep by simp
  ultimately show ?case by blast
qed

lemma loop_from_empty:
  assumes "decode_loop env model z c2i i2c st en dev k empty_data w = (Inr d, w')"
  shows "\<exists>recs vs. d = table_of recs \<and> length recs = k \<and> length vs = k
           \<and> (\<forall>r \<in> set recs. fst (snd r) = validity env (fst r)
                  \<and> compute_property env (fst r) = Inr (snd (snd r)))
           \<and> files w' = files w \<and> stdout w' = stdout w
           \<and> log w' = log w @ map (EvDecode z) vs
           \<and> (decoder_read_only env \<longrightarrow>
                 vs = replicate k (tensor_val env (heap w) z)
                 \<and> tensor_val env (heap w') z = tensor_val env (heap w) z)"
  using decode_loop_Inr [of env model z c2i i2c st en dev k "[]" w d w'] assms
  by (simp add: table_of_Nil)

subsection \<open>Writing the table\<close>

lemma DataFrame_table_of:
  "DataFrame (table_of recs) =
     Inr \<lparr>columns = header,
          rows = map (\<lambda>r. [CStr (fst r), CStr (fst (snd r)), CNum (snd (snd r))]) recs\<rparr>"
proof -
  have "map (\<lambda>i. [map (\<lambda>r. CStr (fst r)) recs ! i, map (\<lambda>r. CStr (fst (snd r))) recs ! i,
                   map (\<lambda>r. CNum (snd (snd r))) recs ! i]) [0..<length recs]
        = map (\<lambda>r. [CStr (fst r), CStr (fst (snd r)), CNum (snd (snd r))]) recs"
    by (rule nth_equalityI) simp_all
  then show ?thesis
    by (simp add: DataFrame_def table_of_def header_def)
qed

lemma render_rows:
  "map (csv_field (str_of_property env)) \<circ>
     (\<lambda>r. [CStr (fst r), CStr (fst (snd r)), CNum (snd (snd r))])
   = render env"
  by (simp add: render_def fun_eq_iff)

lemma persist_Inr:
  assumes "DataFrame (table_of recs) = Inr df"
    and "to_csv env df output_path w = (Inr u, w2)"
    and "print env msg w2 = (Inr u', w')"
  shows "files w' = (files w)(output_path \<mapsto> header # map (render env) recs)
         \<and> stdout w' = stdout w @ [msg] \<and> log w' = log w \<and> heap w' = heap w"
  using assms
  by (auto simp: DataFrame_table_of to_csv_def print_def Let_def
        raiseE_def render_rows split: option.splits prod.splits)

subsection \<open>A run that returns\<close>

lemma generate_Inr:
  assumes "generate env n model_dir output_path w = (Inr data, w')"
  shows "\<exists>cfg vsize hz pidx model z0 zin zopt v recs vals h0 h1 h2 h3 h4.
           data = table_of recs \<and> length recs = nat n
           \<and> (\<forall>r \<in> set recs. fst (snd r) = validity env (fst r)
                  \<and> compute_property env (fst r) = Inr (snd (snd r)))
           \<and> files w' = (files w)(output_path \<mapsto> header # map (render env) recs)
           \<and> stdout w' = stdout w @ [''Generated molecules saved to '' @ output_path]
           \<and> Config env (heap w) = (Inr cfg, h0)
           \<and> torch_randn env 1 (latent_dim cfg) h1 = (Inr z0, h2)
           \<and> tensor_to env z0 (device cfg) h2 = (Inr zin, h3)
           \<and> optimize_latent_vector env model zin 100 (1 / 100) h3 = (Inr zopt, h4)
           \<and> v = tensor_val env h4 zopt
           \<and> log w' = log w @
                [EvConfig, EvTorchLoad (path_join model_dir ''model_info.pth''),
                 EvVAE vsize (embed_size cfg) (latent_dim cfg) hz pidx, EvModuleTo (device cfg),
                 EvTorchLoad (path_join model_dir ''vae_model.pth''), EvLoadStateDict,
                 EvRandn 1 (latent_dim cfg), EvTensorTo (device cfg),
                 EvOptimize zin 100 (1 / 100), EvOptimized zopt v]
                @ map (EvDecode zopt) vals
           \<and> length vals = nat n
           \<and> (decoder_read_only env \<longrightarrow>
                 vals = replicate (nat n) v \<and> tensor_val env (heap w') zopt = v)"
  using assms unfolding generate_def optimize_call_def
  apply (clarsimp simp: bindE_Inr call_Inr liftE_Inr returnE_Inr)
  apply (drule loop_from_empty)
  apply (elim exE conjE)
  apply hypsubst
  apply (drule (2) persist_Inr)
  apply (elim exE conjE)
  apply simp
  apply blast
  done


subsection \<open>The steps a returning run went through\<close>



subsection \<open>One round\<close>








subsection \<open>From the steps to the run\<close>










subsection \<open>What a failing run leaves behind\<close>














subsection \<open>Runs of the small environment\<close>

lemmas toy_defs =
  toy_env_def toy_world_def toy_data_def toy_log_def toy_info_def toy_c2i_def toy_kvs_def toy_i2c_def
  toy_vocab_def toy_config_def toy_final_def toy_final0_def

lemmas run_defs =
  generate_def bindE_def call_def liftE_def returnE_def raiseE_def path_join_def
  optimize_call_def decode_call_def iteration_def empty_data_def DataFrame_def to_csv_def
  print_def

lemma toy_run:
  "generate (toy_env (PStr ''_'') 99) 2 ''ckpt'' ''out.csv'' toy_world = (Inr toy_data, toy_final)"
  by (simp add: toy_defs run_defs numeral_2_eq_2)


lemma toy_run_neg:
  "generate (toy_env (PStr ''_'') 99) (- 3) ''ckpt'' ''out.csv'' toy_world
     = (Inr empty_data, toy_final0)"
  by (simp add: toy_defs run_defs)

lemma toy_run_decode_fails:
  "generate (toy_env (PStr ''_'') 2) 2 ''ckpt'' ''out.csv'' toy_world =
     (Inl (RuntimeError ''decode''),
      toy_world\<lparr>heap := (3, 103),
                log := toy_log @ [EvDecode 1 103, EvDecode 1 103, EvRaised (RuntimeError ''decode'')]\<rparr>)"
  by (simp add: toy_defs run_defs numeral_2_eq_2)

lemma toy_run_no_pad:
  "generate (toy_env (PStr ''#'') 99) 2 ''ckpt'' ''out.csv'' toy_world =
     (Inl (KeyError (PStr ''#'')),
      toy_world\<lparr>log := [EvConfig, EvTorchLoad ''ckpt/model_info.pth'',
                         EvRaised (KeyError (PStr ''#''))]\<rparr>)"
  by (simp add: toy_defs run_defs)

lemma toy_run_no_weights:
  "generate toy_no_weights 2 ''ckpt'' ''out.csv'' toy_world =
     (Inl (OSError ''ckpt/vae_model.pth''),
      toy_world\<lparr>log := [EvConfig, EvTorchLoad ''ckpt/model_info.pth'', EvVAE 6 8 4 9 (PInt 5),
                         EvModuleTo ''cpu'', EvTorchLoad ''ckpt/vae_model.pth'',
                         EvRaised (OSError ''ckpt/vae_model.pth'')]\<rparr>)"
  by (simp add: toy_no_weights_def toy_defs run_defs)






lemma toy_read_only: "decoder_read_only (toy_env pad bad)"
  by (simp add: decoder_read_only_def toy_env_def)


lemma generate_Inr_table:
  assumes "generate env n model_dir output_path w = (Inr data, w')"
  shows "\<exists>recs. data = table_of recs \<and> length recs = nat n
           \<and> (\<forall>r \<in> set recs. fst (snd r) = validity env (fst r)
                  \<and> compute_property env (fst r) = Inr (snd (snd r)))
           \<and> files w' = (files w)(output_path \<mapsto> header # map (render env) recs)
           \<and> stdout w' = stdout w @ [''Generated molecules saved to '' @ output_path]"
  using generate_Inr [OF assms]
  apply (elim exE conjE)
  apply (intro exI conjI)
      apply assumption+
  done

lemma generate_Inr_log:
  assumes "generate env n model_dir output_path w = (Inr data, w')"
  shows "\<exists>cfg vsize hz pidx model z0 zin zopt v vals h0 h1 h2 h3 h4.
           Config env (heap w) = (Inr cfg, h0)
           \<and> torch_randn env 1 (latent_dim cfg) h1 = (Inr z0, h2)
           \<and> tensor_to env z0 (device cfg) h2 = (Inr zin, h3)
           \<and> optimize_latent_vector env model zin 100 (1 / 100) h3 = (Inr zopt, h4)
           \<and> v = tensor_val env h4 zopt
           \<and> log w' = log w @
                [EvConfig, EvTorchLoad (path_join model_dir ''model_info.pth''),
                 EvVAE vsize (embed_size cfg) (latent_dim cfg) hz pidx, EvModuleTo (device cfg),
                 EvTorchLoad (path_join model_dir ''vae_model.pth''), EvLoadStateDict,
                 EvRandn 1 (latent_dim cfg), EvTensorTo (device cfg),
                 EvOptimize zin 100 (1 / 100), EvOptimized zopt v]
                @ map (EvDecode zopt) vals
           \<and> length vals = nat n
           \<and> (decoder_read_only env \<longrightarrow>
                 vals = replicate (nat n) v \<and> tensor_val env (heap w') zopt = v)"
  using generate_Inr [OF assms]
  apply (elim exE conjE)
  apply (intro exI conjI)
         apply assumption+
  done


lemma generate_no_rounds:
  assumes run: "generate env n model_dir output_path w = (Inr data, w')" and n: "nat n = 0"
  shows "data = [(''Generated_SMILES'', []), (''Validity'', []), (''QED'', [])]
         \<and> files w' = (files w)(output_path \<mapsto> [[''Generated_SMILES'', ''Validity'', ''QED'']])
         \<and> decodes (log w') = decodes (log w)
         \<and> (\<exists>(cfg::config) vsize hz pidx zin zopt v.
               log w' = log w @
                 [EvConfig, EvTorchLoad (path_join model_dir ''model_info.pth''),
                  EvVAE vsize (embed_size cfg) (latent_dim cfg) hz pidx, EvModuleTo (device cfg),
                  EvTorchLoad (path_join model_dir ''vae_model.pth''), EvLoadStateDict,
                  EvRandn 1 (latent_dim cfg), EvTensorTo (device cfg),
                  EvOptimize zin 100 (1 / 100), EvOptimized zopt v])"
proof -
  from generate_Inr_table [OF run] obtain recs where
    data: "data = table_of recs" and len: "length recs = nat n"
    and ok: "\<forall>r \<in> set recs. fst (snd r) = validity env (fst r)
                  \<and> compute_property env (fst r) = Inr (snd (snd r))"
    and fl: "files w' = (files w)(output_path \<mapsto> header # map (render env) recs)"
    and so: "stdout w' = stdout w @ [''Generated molecules saved to '' @ output_path]"
    by blast
  from generate_Inr_log [OF run] obtain cfg vsize hz pidx model z0 zin zopt v vals h0 h1 h2 h3 h4 where
    cfg: "Config env (heap w) = (Inr cfg, h0)"
    and rnd: "torch_randn env 1 (latent_dim cfg) h1 = (Inr z0, h2)"
    and tto: "tensor_to env z0 (device cfg) h2 = (Inr zin, h3)"
    and opt: "optimize_latent_vector env model zin 100 (1 / 100) h3 = (Inr zopt, h4)"
    and v: "v = tensor_val env h4 zopt"
    and lg: "log w' = log w @
                [EvConfig, EvTorchLoad (path_join model_dir ''model_info.pth''),
                 EvVAE vsize (embed_size cfg) (latent_dim cfg) hz pidx, EvModuleTo (device cfg),
                 EvTorchLoad (path_join model_dir ''vae_model.pth''), EvLoadStateDict,
                 EvRandn 1 (latent_dim cfg), EvTensorTo (device cfg),
                 EvOptimize zin 100 (1 / 100), EvOptimized zopt v]
                @ map (EvDecode zopt) vals"
    and lv: "length vals = nat n"
    and ro: "decoder_read_only env \<longrightarrow>
                 vals = replicate (nat n) v \<and> tensor_val env (heap w') zopt = v"
    by blast
  from len lv have nil: "recs = []" "vals = []" by (simp_all add: n)
  have d: "data = [(''Generated_SMILES'', []), (''Validity'', []), (''QED'', [])]"
    using data nil by (simp add: table_of_def)
  have f: "files w' = (files w)(output_path \<mapsto> [[''Generated_SMILES'', ''Validity'', ''QED'']])"
    using fl nil by (simp add: header_def)
  have lg0: "log w' = log w @
                 [EvConfig, EvTorchLoad (path_join model_dir ''model_info.pth''),
                  EvVAE vsize (embed_size cfg) (latent_dim cfg) hz pidx, EvModuleTo (device cfg),
                  EvTorchLoad (path_join model_dir ''vae_model.pth''), EvLoadStateDict,
                  EvRandn 1 (latent_dim cfg), EvTensorTo (device cfg),
                  EvOptimize zin 100 (1 / 100), EvOptimized zopt v]"
    using lg nil by simp
  have dc: "decodes (log w') = decodes (log w)"
    unfolding lg0 decodes_append by (simp add: decodes_def)
  have ex: "\<exists>(cfg::config) vsize hz pidx zin zopt v.
               log w' = log w @
                 [EvConfig, EvTorchLoad (path_join model_dir ''model_info.pth''),
                  EvVAE vsize (embed_size cfg) (latent_dim cfg) hz pidx, EvModuleTo (device cfg),
                  EvTorchLoad (path_join model_dir ''vae_model.pth''), EvLoadStateDict,
                  EvRandn 1 (latent_dim cfg), EvTensorTo (device cfg),
                  EvOptimize zin 100 (1 / 100), EvOptimized zopt v]"
    by (intro exI) (rule lg0)
  show ?thesis by (intro conjI) (rule d f dc ex)+
qed

section \<open>Properties of the generation routine\<close>

text \<open>
  C1. For every positive molecule count on which \<open>generate\<close> completes, the result
  table has exactly that many rows, in the returned mapping (each of its three columns)
  and in the written file (the records after the header); the run makes exactly that
  many decode calls, one recorded row per call whatever the validity of the strings.
\<close>

theorem generate_row_count:
  assumes "generate env n model_dir output_path w = (Inr data, w')" and "0 < n"
  shows "map fst data = [''Generated_SMILES'', ''Validity'', ''QED'']
         \<and> (\<forall>c \<in> set data. int (length (snd c)) = n)
         \<and> (\<exists>hdr rws. files w' output_path = Some (hdr # rws) \<and> int (length rws) = n)
         \<and> int (decodes (log w')) = int (decodes (log w)) + n"
proof -
  from generate_Inr_table [OF assms(1)] obtain recs where
    data: "data = table_of recs" and len: "length recs = nat n"
    and ok: "\<forall>r \<in> set recs. fst (snd r) = validity env (fst r)
                  \<and> compute_property env (fst r) = Inr (snd (snd r))"
    and fl: "files w' = (files w)(output_path \<mapsto> header # map (render env) recs)"
    and so: "stdout w' = stdout w @ [''Generated molecules saved to '' @ output_path]"
    by blast
  from generate_Inr_log [OF assms(1)] obtain cfg vsize hz pidx model z0 zin zopt v vals h0 h1 h2 h3 h4 where
    cfg: "Config env (heap w) = (Inr cfg, h0)"
    and rnd: "torch_randn env 1 (latent_dim cfg) h1 = (Inr z0, h2)"
    and tto: "tensor_to env z0 (device cfg) h2 = (Inr zin, h3)"
    and opt: "optimize_latent_vector env model zin 100 (1 / 100) h3 = (Inr zopt, h4)"
    and v: "v = tensor_val env h4 zopt"
    and lg: "log w' = log w @
                [EvConfig, EvTorchLoad (path_join model_dir ''model_info.pth''),
                 EvVAE vsize (embed_size cfg) (latent_dim cfg) hz pidx, EvModuleTo (device cfg),
                 EvTorchLoad (path_join model_dir ''vae_model.pth''), EvLoadStateDict,
                 EvRandn 1 (latent_dim cfg), EvTensorTo (device cfg),
                 EvOptimize zin 100 (1 / 100), EvOptimized zopt v]
                @ map (EvDecode zopt) vals"
    and lv: "length vals = nat n"
    and ro: "decoder_read_only env \<longrightarrow>
                 vals = replicate (nat n) v \<and> tensor_val env (heap w') zopt = v"
    by blast
  have "map fst data = [''Generated_SMILES'', ''Validity'', ''QED'']"
    using data by (simp add: table_of_def)
  moreover have "\<forall>c \<in> set data. int (length (snd c)) = n"
    using data len assms(2) by (simp add: table_of_def)
  moreover have "\<exists>hdr rws. files w' output_path = Some (hdr # rws) \<and> int (length rws) = n"
    using fl len assms(2) by simp
  moreover have "decodes (log w') = decodes (log w) + length vals"
    unfolding lg decodes_append decodes_map_EvDecode by (simp add: decodes_def)
  then have "int (decodes (log w')) = int (decodes (log w)) + n"
    using lv assms(2) by simp
  ultimately show ?thesis by blast
qed

theorem generate_row_count_witness:
  "generate (toy_env (PStr ''_'') 99) 2 ''ckpt'' ''out.csv'' toy_world = (Inr toy_data, toy_final)
   \<and> (0::int) < 2
   \<and> map fst toy_data = [''Generated_SMILES'', ''Validity'', ''QED'']
   \<and> map (\<lambda>c. int (length (snd c))) toy_data = [2, 2, 2]
   \<and> (\<exists>hdr rws. files toy_final ''out.csv'' = Some (hdr # rws) \<and> int (length rws) = 2)
   \<and> int (decodes (log toy_final)) = int (decodes (log toy_world)) + 2"
  using generate_row_count [OF toy_run] toy_run by (simp add: toy_data_def)

text \<open>
  C2. Whenever \<open>generate\<close> completes, the file at the output path is a table whose
  header record reads \<^verbatim>\<open>Generated_SMILES,Validity,QED\<close>, the columns of the returned
  mapping in the same order, and it has as many data records as each column of the
  returned mapping has entries.
\<close>

theorem generate_file_matches_return:
  assumes "generate env n model_dir output_path w = (Inr data, w')"
  shows "\<exists>hdr rws. files w' output_path = Some (hdr # rws)
           \<and> csv_line hdr = ''Generated_SMILES,Validity,QED''
           \<and> hdr = map fst data
           \<and> length data = 3
           \<and> (\<forall>c \<in> set data. length (snd c) = length rws)"
proof -
  from generate_Inr_table [OF assms] obtain recs where
    data: "data = table_of recs" and len: "length recs = nat n"
    and ok: "\<forall>r \<in> set recs. fst (snd r) = validity env (fst r)
                  \<and> compute_property env (fst r) = Inr (snd (snd r))"
    and fl: "files w' = (files w)(output_path \<mapsto> header # map (render env) recs)"
    and so: "stdout w' = stdout w @ [''Generated molecules saved to '' @ output_path]"
    by blast
  have "files w' output_path = Some (header # map (render env) recs)"
    using fl by simp
  moreover have "csv_line header = ''Generated_SMILES,Validity,QED''"
    by (simp add: header_def)
  moreover have "header = map fst data" "length data = 3"
    using data by (simp_all add: table_of_def header_def)
  moreover have "\<forall>c \<in> set data. length (snd c) = length (map (render env) recs)"
    using data by (simp add: table_of_def)
  ultimately show ?thesis by blast
qed

theorem generate_file_matches_return_witness:
  "generate (toy_env (PStr ''_'') 99) 2 ''ckpt'' ''out.csv'' toy_world = (Inr toy_data, toy_final)
   \<and> (\<exists>hdr rws. files toy_final ''out.csv'' = Some (hdr # rws)
           \<and> csv_line hdr = ''Generated_SMILES,Validity,QED''
           \<and> hdr = map fst toy_data
           \<and> length toy_data = 3
           \<and> (\<forall>c \<in> set toy_data. length (snd c) = length rws))"
  using generate_file_matches_return [OF toy_run] toy_run by simp

text \<open>
  C3. Whenever \<open>generate\<close> completes, every row of the result table, in the returned
  mapping and in the file alike, holds a string \<open>s\<close>, a label and a value where the label
  is the outcome of parsing that same \<open>s\<close> (\<open>Valid\<close> when \<open>MolFromSmiles\<close> gives a molecule,
  \<open>Invalid\<close> when it gives none, and nothing else) and the value is what
  \<open>compute_property\<close> returns on that same \<open>s\<close>.
\<close>

theorem generate_rows_consistent:
  assumes "generate env n model_dir output_path w = (Inr data, w')"
  shows "\<exists>recs. data = table_of recs
           \<and> files w' output_path = Some (header # map (render env) recs)
           \<and> (\<forall>r \<in> set recs.
                 (fst (snd r) = ''Valid'' \<or> fst (snd r) = ''Invalid'')
                 \<and> (fst (snd r) = ''Valid'' \<longleftrightarrow> MolFromSmiles env (fst r) \<noteq> None)
                 \<and> (fst (snd r) = ''Invalid'' \<longleftrightarrow> MolFromSmiles env (fst r) = None)
                 \<and> compute_property env (fst r) = Inr (snd (snd r)))"
proof -
  from generate_Inr_table [OF assms] obtain recs where
    data: "data = table_of recs" and len: "length recs = nat n"
    and ok: "\<forall>r \<in> set recs. fst (snd r) = validity env (fst r)
                  \<and> compute_property env (fst r) = Inr (snd (snd r))"
    and fl: "files w' = (files w)(output_path \<mapsto> header # map (render env) recs)"
    and so: "stdout w' = stdout w @ [''Generated molecules saved to '' @ output_path]"
    by blast
  have "files w' output_path = Some (header # map (render env) recs)"
    using fl by simp
  moreover have "\<forall>r \<in> set recs.
                 (fst (snd r) = ''Valid'' \<or> fst (snd r) = ''Invalid'')
                 \<and> (fst (snd r) = ''Valid'' \<longleftrightarrow> MolFromSmiles env (fst r) \<noteq> None)
                 \<and> (fst (snd r) = ''Invalid'' \<longleftrightarrow> MolFromSmiles env (fst r) = None)
                 \<and> compute_property env (fst r) = Inr (snd (snd r))"
    using ok by (simp add: validity_def)
  ultimately show ?thesis using data by blast
qed

theorem generate_rows_consistent_witness:
  "generate (toy_env (PStr ''_'') 99) 2 ''ckpt'' ''out.csv'' toy_world = (Inr toy_data, toy_final)
   \<and> toy_data = table_of [(''CCO'', ''Valid'', 41), (''C('', ''Invalid'', 0)]
   \<and> files toy_final ''out.csv''
        = Some (header # map (render (toy_env (PStr ''_'') 99)) [(''CCO'', ''Valid'', 41), (''C('', ''Invalid'', 0)])
   \<and> MolFromSmiles (toy_env (PStr ''_'') 99) ''CCO'' \<noteq> None
   \<and> compute_property (toy_env (PStr ''_'') 99) ''CCO'' = Inr 41
   \<and> MolFromSmiles (toy_env (PStr ''_'') 99) ''C('' = None
   \<and> compute_property (toy_env (PStr ''_'') 99) ''C('' = Inr 0"
proof -
  from generate_rows_consistent [OF toy_run] obtain recs where
    d: "toy_data = table_of recs"
    and f: "files toy_final ''out.csv'' = Some (header # map (render (toy_env (PStr ''_'') 99)) recs)"
    and ok: "\<forall>r \<in> set recs.
                 (fst (snd r) = ''Valid'' \<or> fst (snd r) = ''Invalid'')
                 \<and> (fst (snd r) = ''Valid'' \<longleftrightarrow> MolFromSmiles (toy_env (PStr ''_'') 99) (fst r) \<noteq> None)
                 \<and> (fst (snd r) = ''Invalid'' \<longleftrightarrow> MolFromSmiles (toy_env (PStr ''_'') 99) (fst r) = None)
                 \<and> compute_property (toy_env (PStr ''_'') 99) (fst r) = Inr (snd (snd r))"
    by blast
  have td: "toy_data = table_of [(''CCO'', ''Valid'', 41), (''C('', ''Invalid'', 0)]"
    by (simp add: toy_data_def table_of_def)
  from d td have recs: "recs = [(''CCO'', ''Valid'', 41), (''C('', ''Invalid'', 0)]"
    by (simp add: table_of_inject)
  from ok have "MolFromSmiles (toy_env (PStr ''_'') 99) ''CCO'' \<noteq> None" "compute_property (toy_env (PStr ''_'') 99) ''CCO'' = Inr 41"
    "MolFromSmiles (toy_env (PStr ''_'') 99) ''C('' = None" "compute_property (toy_env (PStr ''_'') 99) ''C('' = Inr 0"
    unfolding recs by simp_all
  with toy_run td f [unfolded recs] show ?thesis by simp
qed




text \<open>
  C5. On a completing run the optimizer is called once, before any decode call, and every
  one of the decode calls that follow receives the tensor the optimizer returned, no
  other. When the decoder treats the tensor it is given as read-only, the content of that
  tensor at each decode call, and at the end of the run, is the content the optimizer
  left.
\<close>

theorem generate_latent_shared:
  assumes "generate env n model_dir output_path w = (Inr data, w')"
  shows "\<exists>pre zin zopt v vals.
           log w' = log w @ pre
              @ [EvOptimize zin 100 (1 / 100), EvOptimized zopt v] @ map (EvDecode zopt) vals
           \<and> length vals = nat n
           \<and> (\<forall>ev \<in> set pre. \<not> is_optimize ev \<and> \<not> is_decode ev)
           \<and> (decoder_read_only env \<longrightarrow>
                 vals = replicate (nat n) v \<and> tensor_val env (heap w') zopt = v)"
proof -
  from generate_Inr_log [OF assms] obtain cfg vsize hz pidx model z0 zin zopt v vals h0 h1 h2 h3 h4 where
    cfg: "Config env (heap w) = (Inr cfg, h0)"
    and rnd: "torch_randn env 1 (latent_dim cfg) h1 = (Inr z0, h2)"
    and tto: "tensor_to env z0 (device cfg) h2 = (Inr zin, h3)"
    and opt: "optimize_latent_vector env model zin 100 (1 / 100) h3 = (Inr zopt, h4)"
    and v: "v = tensor_val env h4 zopt"
    and lg: "log w' = log w @
                [EvConfig, EvTorchLoad (path_join model_dir ''model_info.pth''),
                 EvVAE vsize (embed_size cfg) (latent_dim cfg) hz pidx, EvModuleTo (device cfg),
                 EvTorchLoad (path_join model_dir ''vae_model.pth''), EvLoadStateDict,
                 EvRandn 1 (latent_dim cfg), EvTensorTo (device cfg),
                 EvOptimize zin 100 (1 / 100), EvOptimized zopt v]
                @ map (EvDecode zopt) vals"
    and lv: "length vals = nat n"
    and ro: "decoder_read_only env \<longrightarrow>
                 vals = replicate (nat n) v \<and> tensor_val env (heap w') zopt = v"
    by blast
  let ?pre = "[EvConfig, EvTorchLoad (path_join model_dir ''model_info.pth''),
                 EvVAE vsize (embed_size cfg) (latent_dim cfg) hz pidx, EvModuleTo (device cfg),
                 EvTorchLoad (path_join model_dir ''vae_model.pth''), EvLoadStateDict,
                 EvRandn 1 (latent_dim cfg), EvTensorTo (device cfg)]"
  have a: "log w' = log w @ ?pre
              @ [EvOptimize zin 100 (1 / 100), EvOptimized zopt v] @ map (EvDecode zopt) vals"
    using lg by simp
  have b: "\<forall>ev \<in> set ?pre. \<not> is_optimize ev \<and> \<not> is_decode ev"
    by simp
  show ?thesis by (intro exI conjI) (rule a lv b ro)+
qed

theorem generate_latent_shared_witness:
  "generate (toy_env (PStr ''_'') 99) 2 ''ckpt'' ''out.csv'' toy_world = (Inr toy_data, toy_final)
   \<and> decoder_read_only (toy_env (PStr ''_'') 99)
   \<and> (\<exists>pre zin zopt v.
           log toy_final = log toy_world @ pre
              @ [EvOptimize zin 100 (1 / 100), EvOptimized zopt v] @ replicate 2 (EvDecode zopt v)
           \<and> (\<forall>ev \<in> set pre. \<not> is_optimize ev \<and> \<not> is_decode ev)
           \<and> tensor_val (toy_env (PStr ''_'') 99) (heap toy_final) zopt = v)"
proof -
  from generate_latent_shared [OF toy_run] obtain pre zin zopt v vals where
    lg: "log toy_final = log toy_world @ pre
              @ [EvOptimize zin 100 (1 / 100), EvOptimized zopt v] @ map (EvDecode zopt) vals"
    and pre: "\<forall>ev \<in> set pre. \<not> is_optimize ev \<and> \<not> is_decode ev"
    and ro: "decoder_read_only (toy_env (PStr ''_'') 99) \<longrightarrow>
                 vals = replicate (nat 2) v \<and> tensor_val (toy_env (PStr ''_'') 99) (heap toy_final) zopt = v"
    by blast
  from ro toy_read_only have vals: "vals = replicate 2 v"
    and keep: "tensor_val (toy_env (PStr ''_'') 99) (heap toy_final) zopt = v"
    by simp_all
  have lg': "log toy_final = log toy_world @ pre
              @ [EvOptimize zin 100 (1 / 100), EvOptimized zopt v] @ replicate 2 (EvDecode zopt v)"
    using lg unfolding vals by simp
  have "\<exists>pre zin zopt v.
           log toy_final = log toy_world @ pre
              @ [EvOptimize zin 100 (1 / 100), EvOptimized zopt v] @ replicate 2 (EvDecode zopt v)
           \<and> (\<forall>ev \<in> set pre. \<not> is_optimize ev \<and> \<not> is_decode ev)
           \<and> tensor_val (toy_env (PStr ''_'') 99) (heap toy_final) zopt = v"
    by (intro exI conjI) (rule lg' pre keep)+
  with toy_run toy_read_only show ?thesis by (intro conjI)
qed

text \<open>
  C6. On a completing run, before any decode call, exactly one latent tensor is drawn
  with \<^verbatim>\<open>torch.randn\<close>, of shape one by the configured latent size, moved to the device and
  handed to the optimizer, which is called once with the constants 100 for the number of
  steps and 1e-2 for the learning rate.
\<close>

theorem generate_latent_setup:
  assumes "generate env n model_dir output_path w = (Inr data, w')"
  shows "\<exists>cfg h0 pre model z0 zin zopt v vals h1 h2 h3 h4.
           Config env (heap w) = (Inr cfg, h0)
           \<and> torch_randn env 1 (latent_dim cfg) h1 = (Inr z0, h2)
           \<and> tensor_to env z0 (device cfg) h2 = (Inr zin, h3)
           \<and> optimize_latent_vector env model zin 100 (1 / 100) h3 = (Inr zopt, h4)
           \<and> log w' = log w @ pre
              @ [EvRandn 1 (latent_dim cfg), EvTensorTo (device cfg),
                 EvOptimize zin 100 (1 / 100), EvOptimized zopt v]
              @ map (EvDecode zopt) vals
           \<and> length vals = nat n
           \<and> (\<forall>ev \<in> set pre. \<not> is_randn ev \<and> \<not> is_optimize ev \<and> \<not> is_decode ev)"
proof -
  from generate_Inr_log [OF assms] obtain cfg vsize hz pidx model z0 zin zopt v vals h0 h1 h2 h3 h4 where
    cfg: "Config env (heap w) = (Inr cfg, h0)"
    and rnd: "torch_randn env 1 (latent_dim cfg) h1 = (Inr z0, h2)"
    and tto: "tensor_to env z0 (device cfg) h2 = (Inr zin, h3)"
    and opt: "optimize_latent_vector env model zin 100 (1 / 100) h3 = (Inr zopt, h4)"
    and v: "v = tensor_val env h4 zopt"
    and lg: "log w' = log w @
                [EvConfig, EvTorchLoad (path_join model_dir ''model_info.pth''),
                 EvVAE vsize (embed_size cfg) (latent_dim cfg) hz pidx, EvModuleTo (device cfg),
                 EvTorchLoad (path_join model_dir ''vae_model.pth''), EvLoadStateDict,
                 EvRandn 1 (latent_dim cfg), EvTensorTo (device cfg),
                 EvOptimize zin 100 (1 / 100), EvOptimized zopt v]
                @ map (EvDecode zopt) vals"
    and lv: "length vals = nat n"
    and ro: "decoder_read_only env \<longrightarrow>
                 vals = replicate (nat n) v \<and> tensor_val env (heap w') zopt = v"
    by blast
  let ?pre = "[EvConfig, EvTorchLoad (path_join model_dir ''model_info.pth''),
                 EvVAE vsize (embed_size cfg) (latent_dim cfg) hz pidx, EvModuleTo (device cfg),
                 EvTorchLoad (path_join model_dir ''vae_model.pth''), EvLoadStateDict]"
  have a: "log w' = log w @ ?pre
              @ [EvRandn 1 (latent_dim cfg), EvTensorTo (device cfg),
                 EvOptimize zin 100 (1 / 100), EvOptimized zopt v]
              @ map (EvDecode zopt) vals"
    using lg by simp
  have b: "\<forall>ev \<in> set ?pre. \<not> is_randn ev \<and> \<not> is_optimize ev \<and> \<not> is_decode ev"
    by simp
  show ?thesis by (intro exI conjI) (rule cfg rnd tto opt a lv b)+
qed

theorem generate_latent_setup_witness:
  "generate (toy_env (PStr ''_'') 99) 2 ''ckpt'' ''out.csv'' toy_world = (Inr toy_data, toy_final)
   \<and> (\<exists>cfg h0 pre model z0 zin zopt v vals h1 h2 h3 h4.
           Config (toy_env (PStr ''_'') 99) (heap toy_world) = (Inr cfg, h0)
           \<and> torch_randn (toy_env (PStr ''_'') 99) 1 (latent_dim cfg) h1 = (Inr z0, h2)
           \<and> tensor_to (toy_env (PStr ''_'') 99) z0 (device cfg) h2 = (Inr zin, h3)
           \<and> optimize_latent_vector (toy_env (PStr ''_'') 99) model zin 100 (1 / 100) h3 = (Inr zopt, h4)
           \<and> log toy_final = log toy_world @ pre
              @ [EvRandn 1 (latent_dim cfg), EvTensorTo (device cfg),
                 EvOptimize zin 100 (1 / 100), EvOptimized zopt v]
              @ map (EvDecode zopt) vals
           \<and> length vals = nat 2
           \<and> (\<forall>ev \<in> set pre. \<not> is_randn ev \<and> \<not> is_optimize ev \<and> \<not> is_decode ev))"
  by (intro conjI) (rule toy_run generate_latent_setup [OF toy_run])+







text \<open>
  C9. A molecule count that is zero or negative is no error: the range of the loop is
  empty, so the run is the run for count 0, step for step; when it completes it returns
  three empty columns, writes the header record only and makes no decode call.
\<close>

theorem generate_nonpositive:
  assumes "n \<le> 0"
  shows "generate env n model_dir output_path w = generate env 0 model_dir output_path w
         \<and> (\<forall>data w'. generate env n model_dir output_path w = (Inr data, w') \<longrightarrow>
               data = [(''Generated_SMILES'', []), (''Validity'', []), (''QED'', [])]
               \<and> files w' = (files w)(output_path \<mapsto> [[''Generated_SMILES'', ''Validity'', ''QED'']])
               \<and> decodes (log w') = decodes (log w))"
proof -
  from assms have n: "nat n = 0" by simp
  have same: "generate env n model_dir output_path w = generate env 0 model_dir output_path w"
    by (simp add: generate_def n)
  have rest: "\<forall>data w'. generate env n model_dir output_path w = (Inr data, w') \<longrightarrow>
               data = [(''Generated_SMILES'', []), (''Validity'', []), (''QED'', [])]
               \<and> files w' = (files w)(output_path \<mapsto> [[''Generated_SMILES'', ''Validity'', ''QED'']])
               \<and> decodes (log w') = decodes (log w)"
  proof (intro allI impI)
    fix data w'
    assume run: "generate env n model_dir output_path w = (Inr data, w')"
    from generate_no_rounds [OF run n]
    show "data = [(''Generated_SMILES'', []), (''Validity'', []), (''QED'', [])]
               \<and> files w' = (files w)(output_path \<mapsto> [[''Generated_SMILES'', ''Validity'', ''QED'']])
               \<and> decodes (log w') = decodes (log w)"
      by (elim conjE) (intro conjI, assumption+)
  qed
  from same rest show ?thesis by (rule conjI)
qed

theorem generate_nonpositive_witness:
  "(- 3 :: int) \<le> 0
   \<and> generate (toy_env (PStr ''_'') 99) (- 3) ''ckpt'' ''out.csv'' toy_world = (Inr empty_data, toy_final0)
   \<and> generate (toy_env (PStr ''_'') 99) (- 3) ''ckpt'' ''out.csv'' toy_world
        = generate (toy_env (PStr ''_'') 99) 0 ''ckpt'' ''out.csv'' toy_world
   \<and> (empty_data :: int table) = [(''Generated_SMILES'', []), (''Validity'', []), (''QED'', [])]
   \<and> files toy_final0
        = (files toy_world)(''out.csv'' \<mapsto> [[''Generated_SMILES'', ''Validity'', ''QED'']])
   \<and> decodes (log toy_final0) = decodes (log toy_world)"
proof -
  have le: "(- 3 :: int) \<le> 0" by simp
  have same: "generate (toy_env (PStr ''_'') 99) (- 3) ''ckpt'' ''out.csv'' toy_world
        = generate (toy_env (PStr ''_'') 99) 0 ''ckpt'' ''out.csv'' toy_world"
    by (rule generate_nonpositive [OF le, THEN conjunct1])
  have rest: "(empty_data :: int table) = [(''Generated_SMILES'', []), (''Validity'', []), (''QED'', [])]
       \<and> files toy_final0
            = (files toy_world)(''out.csv'' \<mapsto> [[''Generated_SMILES'', ''Validity'', ''QED'']])
       \<and> decodes (log toy_final0) = decodes (log toy_world)"
    by (rule generate_nonpositive [OF le, THEN conjunct2, rule_format, OF toy_run_neg])
  show ?thesis
    by (intro conjI)
       (rule le toy_run_neg same rest [THEN conjunct1] rest [THEN conjunct2, THEN conjunct1]
             rest [THEN conjunct2, THEN conjunct2])+
qed

text \<open>
  C10. The pad symbol of the checkpoint has to be a key of its symbol-to-index mapping.
  With the metadata read and the mapping a dictionary: when the pad symbol is a key, the
  lookup of line 36 yields its index; when it is not, the run ends there with
  \<^verbatim>\<open>KeyError\<close>, after the configuration and the load of the metadata and nothing else,
  so before the weights are loaded and before any decode call. Hence a run that completes
  had the pad symbol among the keys.
\<close>

theorem generate_pad_lookup:
  assumes "Config env (heap w) = (Inr cfg, h1)"
    and "torch_load_info env (path_join model_dir ''model_info.pth'') h1 = (Inr info, h2)"
    and "getitem info (PStr ''vocab'') = Inr vocab"
    and "getitem info (PStr ''char_to_idx'') = Inr (PDict kvs)"
    and "getitem info (PStr ''idx_to_char'') = Inr i2c"
    and "getitem info (PStr ''start_token'') = Inr st"
    and "getitem info (PStr ''end_token'') = Inr en"
    and "getitem info (PStr ''pad_token'') = Inr pad"
    and "getitem info (PStr ''max_length'') = Inr ml"
    and "py_len vocab = Inr vsize"
    and "py_sub ml 1 = Inr hz"
    and "hashable pad"
  shows "(case map_of kvs pad of
            Some i \<Rightarrow> getitem (PDict kvs) pad = Inr i
          | None \<Rightarrow>
              generate env n model_dir output_path w =
                (Inl (KeyError pad),
                 w\<lparr>heap := h2,
                   log := log w @ [EvConfig, EvTorchLoad (path_join model_dir ''model_info.pth''),
                                   EvRaised (KeyError pad)]\<rparr>))
         \<and> (\<forall>data w'. generate env n model_dir output_path w = (Inr data, w')
                \<longrightarrow> map_of kvs pad \<noteq> None)"
proof -
  have absent: "generate env n model_dir output_path w =
                (Inl (KeyError pad),
                 w\<lparr>heap := h2,
                   log := log w @ [EvConfig, EvTorchLoad (path_join model_dir ''model_info.pth''),
                                   EvRaised (KeyError pad)]\<rparr>)"
    if none: "map_of kvs pad = None"
    unfolding generate_def
    using assms none
    by (simp add: bindE_def call_def liftE_def returnE_def raiseE_def)
  have present: "getitem (PDict kvs) pad = Inr i" if "map_of kvs pad = Some i" for i
    using that assms(12) by simp
  have "case map_of kvs pad of
            Some i \<Rightarrow> getitem (PDict kvs) pad = Inr i
          | None \<Rightarrow>
              generate env n model_dir output_path w =
                (Inl (KeyError pad),
                 w\<lparr>heap := h2,
                   log := log w @ [EvConfig, EvTorchLoad (path_join model_dir ''model_info.pth''),
                                   EvRaised (KeyError pad)]\<rparr>)"
    using absent present by (cases "map_of kvs pad") simp_all
  moreover have "\<forall>data w'. generate env n model_dir output_path w = (Inr data, w')
                \<longrightarrow> map_of kvs pad \<noteq> None"
    using absent by (cases "map_of kvs pad") simp_all
  ultimately show ?thesis by (rule conjI)
qed


theorem generate_pad_lookup_witness:
  "Config (toy_env (PStr ''#'') 99) (heap toy_world) = (Inr toy_config, (0, 0))
   \<and> torch_load_info (toy_env (PStr ''#'') 99) (path_join ''ckpt'' ''model_info.pth'') (0, 0)
        = (Inr (toy_info (PStr ''#'')), (0, 0))
   \<and> getitem (toy_info (PStr ''#'')) (PStr ''vocab'') = Inr toy_vocab
   \<and> getitem (toy_info (PStr ''#'')) (PStr ''char_to_idx'') = Inr (PDict toy_kvs)
   \<and> getitem (toy_info (PStr ''#'')) (PStr ''idx_to_char'') = Inr toy_i2c
   \<and> getitem (toy_info (PStr ''#'')) (PStr ''start_token'') = Inr (PStr ''<'')
   \<and> getitem (toy_info (PStr ''#'')) (PStr ''end_token'') = Inr (PStr ''>'')
   \<and> getitem (toy_info (PStr ''#'')) (PStr ''pad_token'') = Inr (PStr ''#'')
   \<and> getitem (toy_info (PStr ''#'')) (PStr ''max_length'') = Inr (PInt 10)
   \<and> py_len toy_vocab = Inr 6
   \<and> py_sub (PInt 10) 1 = Inr 9
   \<and> hashable (PStr ''#'')
   \<and> map_of toy_kvs (PStr ''#'') = None
   \<and> generate (toy_env (PStr ''#'') 99) 2 ''ckpt'' ''out.csv'' toy_world
        = (Inl (KeyError (PStr ''#'')),
           toy_world\<lparr>heap := (0, 0),
                     log := log toy_world @
                       [EvConfig, EvTorchLoad (path_join ''ckpt'' ''model_info.pth''),
                        EvRaised (KeyError (PStr ''#''))]\<rparr>)
   \<and> map_of toy_kvs (PStr ''_'') = Some (PInt 5)
   \<and> getitem (PDict toy_kvs) (PStr ''_'') = Inr (PInt 5)"
proof -
  have c: "Config (toy_env pad 99) (heap toy_world) = (Inr toy_config, (0, 0))" for pad
    by (simp add: toy_env_def toy_world_def)
  have l: "torch_load_info (toy_env pad 99) (path_join ''ckpt'' ''model_info.pth'') (0, 0)
        = (Inr (toy_info pad), (0, 0))" for pad
    by (simp add: toy_env_def path_join_def)
  have g1: "getitem (toy_info pad) (PStr ''vocab'') = Inr toy_vocab" for pad
    by (simp add: toy_info_def)
  have g2: "getitem (toy_info pad) (PStr ''char_to_idx'') = Inr (PDict toy_kvs)" for pad
    by (simp add: toy_info_def toy_c2i_def)
  have g3: "getitem (toy_info pad) (PStr ''idx_to_char'') = Inr toy_i2c" for pad
    by (simp add: toy_info_def)
  have g4: "getitem (toy_info pad) (PStr ''start_token'') = Inr (PStr ''<'')" for pad
    by (simp add: toy_info_def)
  have g5: "getitem (toy_info pad) (PStr ''end_token'') = Inr (PStr ''>'')" for pad
    by (simp add: toy_info_def)
  have g6: "getitem (toy_info pad) (PStr ''pad_token'') = Inr pad" for pad
    by (simp add: toy_info_def)
  have g7: "getitem (toy_info pad) (PStr ''max_length'') = Inr (PInt 10)" for pad
    by (simp add: toy_info_def)
  have pl: "py_len toy_vocab = Inr 6"
    by (simp add: toy_vocab_def)
  have ps: "py_sub (PInt 10) 1 = Inr 9"
    by simp
  have hh: "hashable (PStr p)" for p
    by simp
  have none: "map_of toy_kvs (PStr ''#'') = None"
    by (simp add: toy_kvs_def)
  have some: "map_of toy_kvs (PStr ''_'') = Some (PInt 5)"
    by (simp add: toy_kvs_def)
  have inst: "case map_of toy_kvs (PStr p) of
            Some i \<Rightarrow> getitem (PDict toy_kvs) (PStr p) = Inr i
          | None \<Rightarrow>
              generate (toy_env (PStr p) 99) 2 ''ckpt'' ''out.csv'' toy_world =
                (Inl (KeyError (PStr p)),
                 toy_world\<lparr>heap := (0, 0),
                   log := log toy_world @
                       [EvConfig, EvTorchLoad (path_join ''ckpt'' ''model_info.pth''),
                        EvRaised (KeyError (PStr p))]\<rparr>)" for p
    by (rule generate_pad_lookup [OF c l g1 g2 g3 g4 g5 g6 g7 pl ps hh, THEN conjunct1])
  have absent: "generate (toy_env (PStr ''#'') 99) 2 ''ckpt'' ''out.csv'' toy_world
        = (Inl (KeyError (PStr ''#'')),
           toy_world\<lparr>heap := (0, 0),
                     log := log toy_world @
                       [EvConfig, EvTorchLoad (path_join ''ckpt'' ''model_info.pth''),
                        EvRaised (KeyError (PStr ''#''))]\<rparr>)"
    using inst [of "''#''"] by (simp only: none option.case)
  have present: "getitem (PDict toy_kvs) (PStr ''_'') = Inr (PInt 5)"
    using inst [of "''_''"] by (simp only: some option.case)
  show ?thesis
    by (intro conjI) (rule c l g1 g2 g3 g4 g5 g6 g7 pl ps hh none absent some present)+
qed

end
